theory Spec2Isabelle
  imports Main "HOL-Library.Sublist" "HOL-Library.AList"
begin

section \<open>Strings and Python list primitives\<close>

text \<open>
  Python strings are modelled as \<^typ>\<open>string\<close>; one \<^typ>\<open>char\<close> stands for one
  character of the Python string. The functions below only compare characters with the
  ASCII characters named in the source, so nothing depends on the size of the alphabet.
\<close>

text \<open>\<^verbatim>\<open>s[:k]\<close>: a negative bound counts from the end of the sequence.\<close>

definition py_slice_to :: "int \<Rightarrow> 'a list \<Rightarrow> 'a list" where
  "py_slice_to k xs =
     (if 0 \<le> k then take (nat k) xs else take (nat (int (length xs) + k)) xs)"

text \<open>\<^verbatim>\<open>s.rfind(c)\<close> for a single character: the last index of \<open>c\<close>, or \<open>-1\<close>.\<close>

fun rfind :: "'a \<Rightarrow> 'a list \<Rightarrow> int" where
  "rfind c [] = - 1"
| "rfind c (x # xs) =
     (let r = rfind c xs
      in if 0 \<le> r then r + 1 else if x = c then 0 else - 1)"

text \<open>\<^verbatim>\<open>s.strip(chars)\<close>: drops leading and trailing characters that occur in \<open>chars\<close>.\<close>

definition strip :: "'a list \<Rightarrow> 'a list \<Rightarrow> 'a list" where
  "strip chars s =
     rev (dropWhile (\<lambda>c. c \<in> set chars) (rev (dropWhile (\<lambda>c. c \<in> set chars) s)))"

text \<open>\<^verbatim>\<open>s.replace(old, new)\<close> for single characters.\<close>

definition replace_char :: "'a \<Rightarrow> 'a \<Rightarrow> 'a list \<Rightarrow> 'a list" where
  "replace_char old new s = map (\<lambda>c. if c = old then new else c) s"

text \<open>
  \<^verbatim>\<open>os.path.splitext\<close> (the generic implementation of the standard library, with
  \<open>/\<close> as the separator): the extension starts at the last dot, provided that dot comes
  after the last separator and some character between the separator and that dot is not
  a dot (leading dots of the last component are not an extension).
\<close>

definition splitext :: "string \<Rightarrow> string \<times> string" where
  "splitext p =
     (let sepIndex = rfind (CHR ''/'') p;
          dotIndex = rfind (CHR ''.'') p
      in if sepIndex < dotIndex \<and>
            list_ex (\<lambda>c. c \<noteq> CHR ''.'')
              (take (nat (dotIndex - (sepIndex + 1))) (drop (nat (sepIndex + 1)) p))
         then (take (nat dotIndex) p, drop (nat dotIndex) p)
         else (p, []))"

section \<open>Filename sanitizer\<close>

text \<open>\<^verbatim>\<open>SharePointScraper._sanitize_filename\<close> (and its verbatim copy in
  \<^verbatim>\<open>UserLevelSharePointScraper\<close>).\<close>

definition invalid_chars :: string where
  "invalid_chars = [CHR ''<'', CHR ''>'', CHR '':'', CHR 0x22, CHR ''/'', CHR 0x5C,
                    CHR ''|'', CHR ''?'', CHR ''*'']"

definition replace_invalid :: "string \<Rightarrow> string" where
  "replace_invalid s = fold (\<lambda>char sanitized. replace_char char (CHR ''_'') sanitized) invalid_chars s"

definition sanitize_filename :: "string \<Rightarrow> string" where
  "sanitize_filename filename =
     (if filename = [] then ''unknown_file''
      else
        let sanitized = strip ''. '' (replace_invalid filename)
        in if sanitized = [] then ''unknown_file''
           else if 200 < length sanitized then
             (let (name, ext) = splitext sanitized
              in py_slice_to (200 - int (length ext)) name @ ext)
           else sanitized)"

section \<open>Python values, exceptions and effects\<close>

text \<open>
  A value that \<^verbatim>\<open>json.load\<close> or \<^verbatim>\<open>response.json()\<close> can return. A dictionary is
  an association list; \<open>JNull\<close> is Python's \<^verbatim>\<open>None\<close>.
\<close>

datatype json =
    JNull
  | JBool bool
  | JInt int
  | JStr string
  | JArr "json list"
  | JObj "(string \<times> json) list"

text \<open>Truthiness of a value (\<^verbatim>\<open>if v:\<close>).\<close>

fun truthy :: "json \<Rightarrow> bool" where
  "truthy JNull = False"
| "truthy (JBool b) = b"
| "truthy (JInt n) = (n \<noteq> 0)"
| "truthy (JStr s) = (s \<noteq> [])"
| "truthy (JArr xs) = (xs \<noteq> [])"
| "truthy (JObj kvs) = (kvs \<noteq> [])"

text \<open>
  The exception classes of \<^verbatim>\<open>exceptions.py\<close>, each with its message
  (\<open>APIError\<close> also with its status code and response data), and the exceptions of
  the runtime and of the \<^verbatim>\<open>requests\<close> library that the code can meet.
\<close>

datatype exn =
    SharePointError string
  | AuthenticationError string
  | DownloadError string
  | ConfigurationError string
  | APIError string "nat option" "json option"
  | RequestException string
  | JSONDecodeError string
  | KeyError string
  | TypeError string
  | AttributeError string
  | ValueError string
  | OSError string

text \<open>\<^verbatim>\<open>str(e)\<close>; for a \<^verbatim>\<open>KeyError\<close> it is the quoted key.\<close>

fun exn_str :: "exn \<Rightarrow> string" where
  "exn_str (SharePointError m) = m"
| "exn_str (AuthenticationError m) = m"
| "exn_str (DownloadError m) = m"
| "exn_str (ConfigurationError m) = m"
| "exn_str (APIError m _ _) = m"
| "exn_str (RequestException m) = m"
| "exn_str (JSONDecodeError m) = m"
| "exn_str (KeyError k) = [CHR 0x27] @ k @ [CHR 0x27]"
| "exn_str (TypeError m) = m"
| "exn_str (AttributeError m) = m"
| "exn_str (ValueError m) = m"
| "exn_str (OSError m) = m"

text \<open>\<^verbatim>\<open>isinstance(e, requests.RequestException)\<close>, the class the retry loops catch.\<close>

fun is_RequestException :: "exn \<Rightarrow> bool" where
  "is_RequestException (RequestException _) = True"
| "is_RequestException _ = False"

fun is_AuthenticationError :: "exn \<Rightarrow> bool" where
  "is_AuthenticationError (AuthenticationError _) = True"
| "is_AuthenticationError _ = False"

text \<open>\<^verbatim>\<open>str(n)\<close> for a natural number and for an integer, in decimal.\<close>

fun str_nat :: "nat \<Rightarrow> string" where
  "str_nat n =
     (if n < 10 then [char_of (48 + n)]
      else str_nat (n div 10) @ [char_of (48 + n mod 10)])"

declare str_nat.simps [simp del]

definition str_int :: "int \<Rightarrow> string" where
  "str_int i = (if i < 0 then CHR ''-'' # str_nat (nat (- i)) else str_nat (nat i))"

text \<open>\<^verbatim>\<open>sub in s\<close> for two strings.\<close>

fun str_contains :: "string \<Rightarrow> string \<Rightarrow> bool" where
  "str_contains sub [] = (sub = [])"
| "str_contains sub (c # cs) = (prefix sub (c # cs) \<or> str_contains sub cs)"

subsection \<open>HTTP\<close>

text \<open>
  A request as \<^verbatim>\<open>requests.get\<close> and \<^verbatim>\<open>requests.post\<close> receive it. The value of the
  \<^verbatim>\<open>Authorization\<close> header is \<^verbatim>\<open>f'Bearer {token}'\<close>; the model keeps the token.
\<close>

datatype header_value = HStr string | Bearer json

record request =
  url :: string
  headers :: "(string \<times> header_value) list"
  form :: "(string \<times> string) list"
  timeout :: "nat option"

text \<open>
  A response: its status, its \<^verbatim>\<open>content-type\<close> header, its bytes (\<^verbatim>\<open>response.content\<close>),
  and what \<^verbatim>\<open>response.json()\<close> makes of them: the decoded value, or the message of the
  error the decoder raises. The type of the decoded value is a parameter: a JSON value
  for the token endpoint, a record of the documented fields for the listing calls.
\<close>

record 'b response =
  status_code :: nat
  content_type :: "string option"
  content :: string
  decoded :: "string + 'b"

text \<open>What a call of \<^verbatim>\<open>requests.get\<close> or \<^verbatim>\<open>requests.post\<close> does: it returns a
  response or raises.\<close>

datatype 'b reply = Response "'b response" | Raises exn

definition response_json :: "'b response \<Rightarrow> exn + 'b" where
  "response_json r = (case decoded r of Inl msg \<Rightarrow> Inl (JSONDecodeError msg) | Inr v \<Rightarrow> Inr v)"

subsection \<open>Effects\<close>

text \<open>
  A log record or a printed line is its level, the text of the f-string with \<open>{}\<close>
  for each interpolated expression, and the interpolated values in order.
  \<open>Sleep\<close> carries the duration in milliseconds.
\<close>

datatype level = INFO | WARNING | ERROR

datatype arg = AStr string | ANat nat | AInt int | AJson json | AExn exn | ANone

datatype event =
    Log level string "arg list"
  | Print string "arg list"
  | HttpGet request
  | HttpPost request
  | Sleep nat
  | Mkdir string
  | WriteFile string string
  | OpenBrowser
  | ServerShutdown

text \<open>
  The state that the network code threads: the number of HTTP requests made so far, which
  is what the remote side's answer may depend on, and the effects so far, oldest first.
\<close>

record world =
  clock :: nat
  trace :: "event list"

text \<open>
  A computation takes the world and returns the new world with either the exception it
  raised or its result.
\<close>

type_synonym 'a prog = "world \<Rightarrow> (exn + 'a) \<times> world"

definition return :: "'a \<Rightarrow> 'a prog" where
  "return x w = (Inr x, w)"

definition raise :: "exn \<Rightarrow> 'a prog" where
  "raise e w = (Inl e, w)"

definition bind :: "'a prog \<Rightarrow> ('a \<Rightarrow> 'b prog) \<Rightarrow> 'b prog" where
  "bind m f w = (case m w of (Inl e, w') \<Rightarrow> (Inl e, w') | (Inr x, w') \<Rightarrow> f x w')"

text \<open>\<^verbatim>\<open>try: m  except Exception as e: h e\<close>\<close>

definition try_except :: "'a prog \<Rightarrow> (exn \<Rightarrow> 'a prog) \<Rightarrow> 'a prog" where
  "try_except m h w = (case m w of (Inl e, w') \<Rightarrow> h e w' | (Inr x, w') \<Rightarrow> (Inr x, w'))"

text \<open>\<^verbatim>\<open>try: m  finally: f\<close>\<close>

definition try_finally :: "'a prog \<Rightarrow> unit prog \<Rightarrow> 'a prog" where
  "try_finally m f w =
     (case m w of
        (r, w') \<Rightarrow> (case f w' of (Inl e, w'') \<Rightarrow> (Inl e, w'') | (Inr _, w'') \<Rightarrow> (r, w'')))"

definition lift :: "exn + 'a \<Rightarrow> 'a prog" where
  "lift r w = (r, w)"

definition emit :: "event \<Rightarrow> unit prog" where
  "emit e w = (Inr (), w\<lparr>trace := trace w @ [e]\<rparr>)"

definition logger :: "level \<Rightarrow> string \<Rightarrow> arg list \<Rightarrow> unit prog" where
  "logger lvl msg args = emit (Log lvl msg args)"

text \<open>
  \<^verbatim>\<open>requests.get\<close> and \<^verbatim>\<open>requests.post\<close> against a remote side \<open>api\<close>, which answers
  the \<open>n\<close>-th request of the run.
\<close>

definition requests_get :: "(nat \<Rightarrow> request \<Rightarrow> 'b reply) \<Rightarrow> request \<Rightarrow> 'b response prog" where
  "requests_get api req w =
     (let w' = w\<lparr>clock := Suc (clock w), trace := trace w @ [HttpGet req]\<rparr>
      in case api (clock w) req of
           Response r \<Rightarrow> (Inr r, w')
         | Raises e \<Rightarrow> (Inl e, w'))"

definition requests_post :: "(nat \<Rightarrow> request \<Rightarrow> 'b reply) \<Rightarrow> request \<Rightarrow> 'b response prog" where
  "requests_post api req w =
     (let w' = w\<lparr>clock := Suc (clock w), trace := trace w @ [HttpPost req]\<rparr>
      in case api (clock w) req of
           Response r \<Rightarrow> (Inr r, w')
         | Raises e \<Rightarrow> (Inl e, w'))"

text \<open>\<^verbatim>\<open>key in d\<close> and \<^verbatim>\<open>d[key]\<close> for a value and a string key.\<close>

fun py_getitem :: "json \<Rightarrow> string \<Rightarrow> exn + json" where
  "py_getitem (JObj kvs) k =
     (case map_of kvs k of None \<Rightarrow> Inl (KeyError k) | Some v \<Rightarrow> Inr v)"
| "py_getitem (JArr xs) k = Inl (TypeError ''list indices must be integers or slices, not str'')"
| "py_getitem (JStr s) k = Inl (TypeError ''string indices must be integers'')"
| "py_getitem v k = Inl (TypeError ''object is not subscriptable'')"

section \<open>Metadata snapshot (\<^verbatim>\<open>utils.py\<close>)\<close>

text \<open>
  The text of a file is modelled by what \<^verbatim>\<open>json.load\<close> makes of it: the value it
  denotes, or the message of the error the decoder raises. \<^verbatim>\<open>json.dump\<close> of a value
  writes a text that denotes that value.
\<close>

datatype content = Json json | Invalid string

text \<open>
  The file system: the files that exist, and the paths that \<^verbatim>\<open>open\<close> refuses for
  reading or for writing, with the error it raises there.
\<close>

record filesystem =
  files :: "string \<rightharpoonup> content"
  read_denied :: "string \<rightharpoonup> exn"
  write_denied :: "string \<rightharpoonup> exn"

definition open_read :: "filesystem \<Rightarrow> string \<Rightarrow> exn + content" where
  "open_read fs path =
     (case read_denied fs path of
        Some e \<Rightarrow> Inl e
      | None \<Rightarrow>
          (case files fs path of
             None \<Rightarrow> Inl (OSError ''No such file or directory'')
           | Some c \<Rightarrow> Inr c))"



text \<open>\<^verbatim>\<open>load_documents_metadata\<close>: the body of its \<^verbatim>\<open>try\<close>, then the function with
  its handler. The result is the value returned and the lines printed.\<close>

definition load_body :: "filesystem \<Rightarrow> string \<Rightarrow> exn + json" where
  "load_body fs input_file =
     (case open_read fs input_file of
        Inl e \<Rightarrow> Inl e
      | Inr (Invalid msg) \<Rightarrow> Inl (JSONDecodeError msg)
      | Inr (Json data) \<Rightarrow>
          (case data of
             JObj kvs \<Rightarrow>
               (if ''documents'' \<in> fst ` set kvs then py_getitem data ''documents''
                else Inl (ValueError ''Invalid metadata file format''))
           | JArr xs \<Rightarrow> Inr data
           | _ \<Rightarrow> Inl (ValueError ''Invalid metadata file format'')))"

definition load_documents_metadata :: "filesystem \<Rightarrow> string \<Rightarrow> exn + json \<times> event list" where
  "load_documents_metadata fs input_file =
     (case load_body fs input_file of
        Inr v \<Rightarrow> Inr (v, [])
      | Inl e \<Rightarrow> Inr (JArr [], [Print ''Error loading metadata: {}'' [AExn e]]))"

section \<open>Authentication (\<^verbatim>\<open>auth.py\<close>)\<close>

record SharePointAuth =
  client_id :: string
  tenant_id :: "string option"
  redirect_uri :: string
  access_token :: json
  token_response :: json

text \<open>
  What \<^verbatim>\<open>authenticate\<close> meets outside the program: the environment variable
  \<^verbatim>\<open>AZURE_CLIENT_SECRET\<close>, the token endpoint, the error (if any) of binding the local
  callback server, and what the callback handler has recorded on the server object
  (\<^verbatim>\<open>auth_code\<close>, \<^verbatim>\<open>auth_error\<close>) after \<open>n\<close> seconds of waiting.
\<close>

record auth_env =
  client_secret :: "string option"
  token_endpoint :: "nat \<Rightarrow> request \<Rightarrow> json reply"
  server_start :: "exn option"
  callback :: "nat \<Rightarrow> string option \<times> string option"

text \<open>Truthiness of an optional string (\<^verbatim>\<open>None\<close> and \<^verbatim>\<open>''\<close> are false).\<close>

definition truthy_str :: "string option \<Rightarrow> bool" where
  "truthy_str s = (case s of None \<Rightarrow> False | Some t \<Rightarrow> t \<noteq> [])"

definition token_url :: "SharePointAuth \<Rightarrow> string" where
  "token_url self =
     (if truthy_str (tenant_id self)
      then ''https://login.microsoftonline.com/'' @ the (tenant_id self) @ ''/oauth2/v2.0/token''
      else ''https://login.microsoftonline.com/common/oauth2/v2.0/token'')"

definition token_data :: "auth_env \<Rightarrow> SharePointAuth \<Rightarrow> string \<Rightarrow> string \<Rightarrow> (string \<times> string) list" where
  "token_data env self auth_code code_verifier =
     [(''client_id'', client_id self),
      (''grant_type'', ''authorization_code''),
      (''code'', auth_code),
      (''redirect_uri'', redirect_uri self),
      (''code_verifier'', code_verifier),
      (''scope'', ''https://graph.microsoft.com/Sites.Read.All https://graph.microsoft.com/Files.Read.All'')]
     @ (if truthy_str (client_secret env) then [(''client_secret'', the (client_secret env))] else [])"

definition token_request :: "auth_env \<Rightarrow> SharePointAuth \<Rightarrow> string \<Rightarrow> string \<Rightarrow> request" where
  "token_request env self auth_code code_verifier =
     \<lparr>url = token_url self,
      headers = [(''Content-Type'', HStr ''application/x-www-form-urlencoded'')],
      form = token_data env self auth_code code_verifier,
      timeout = None\<rparr>"

text \<open>
  \<^verbatim>\<open>SharePointAuth._exchange_code_for_token\<close>. The result is the boolean returned and the
  object after the call. \<open>token_exchange_error\<close> is the handler of the function's
  \<^verbatim>\<open>except Exception\<close>; it is applied with the object as it is when the exception is
  raised.
\<close>

definition token_exchange_error :: "SharePointAuth \<Rightarrow> exn \<Rightarrow> (bool \<times> SharePointAuth) prog" where
  "token_exchange_error self e =
     bind (logger ERROR ''Token exchange error: {}'' [AExn e]) (\<lambda>_. return (False, self))"

definition exchange_code_for_token ::
  "auth_env \<Rightarrow> SharePointAuth \<Rightarrow> string \<Rightarrow> string \<Rightarrow> (bool \<times> SharePointAuth) prog" where
  "exchange_code_for_token env self auth_code code_verifier =
     try_except
       (bind (requests_post (token_endpoint env) (token_request env self auth_code code_verifier))
          (\<lambda>response.
             if status_code response = 200 then
               bind (lift (response_json response)) (\<lambda>tr.
                 let self1 = self\<lparr>token_response := tr\<rparr>
                 in case py_getitem tr ''access_token'' of
                      Inl e \<Rightarrow> token_exchange_error self1 e
                    | Inr tok \<Rightarrow>
                        bind (logger INFO ''Successfully obtained access token'' [])
                          (\<lambda>_. return (True, self1\<lparr>access_token := tok\<rparr>)))
             else
               bind (if prefix ''application/json''
                          (case content_type response of None \<Rightarrow> [] | Some t \<Rightarrow> t)
                     then lift (response_json response)
                     else return (JObj []))
                 (\<lambda>error_data.
                    bind (logger ERROR ''Token exchange failed: {} - {}''
                            [ANat (status_code response), AJson error_data])
                      (\<lambda>_. return (False, self)))))
       (token_exchange_error self)"

text \<open>
  The waiting loop of \<^verbatim>\<open>authenticate\<close>: it polls the server object once a second, for at
  most \<open>timeout = 300\<close> seconds. The result is the number of seconds waited.
\<close>

function wait_for_callback :: "(nat \<Rightarrow> string option \<times> string option) \<Rightarrow> nat \<Rightarrow> nat" where
  "wait_for_callback cb waited =
     (if fst (cb waited) = None \<and> snd (cb waited) = None \<and> waited < 300
      then wait_for_callback cb (Suc waited)
      else waited)"
  by pat_completeness auto
termination
  by (relation "measure (\<lambda>(cb, waited). 300 - waited)") auto

declare wait_for_callback.simps [simp del]

text \<open>
  \<^verbatim>\<open>SharePointAuth.authenticate\<close>, from the start of the callback server on. The PKCE
  pair and the authorization URL are made by the standard library from random bytes;
  they are the parameters \<open>code_verifier\<close> and \<open>auth_url_full\<close>. The result is the
  exception raised or the token returned, and the object after the call.
\<close>

definition authenticate ::
  "auth_env \<Rightarrow> SharePointAuth \<Rightarrow> string \<Rightarrow> string \<Rightarrow> ((exn + json) \<times> SharePointAuth) prog" where
  "authenticate env self code_verifier auth_url_full =
     bind (logger INFO ''Starting interactive OAuth authentication (supports MFA)...'' []) (\<lambda>_.
       case server_start env of
         Some e \<Rightarrow>
           if is_AuthenticationError e then return (Inl e, self)
           else
             bind (logger ERROR ''Interactive authentication failed: {}'' [AExn e]) (\<lambda>_.
               return (Inl (AuthenticationError (''Authentication failed: '' @ exn_str e)), self))
       | None \<Rightarrow>
           bind (logger INFO ''Opening browser for authentication: {}'' [AStr auth_url_full]) (\<lambda>_.
           bind (emit OpenBrowser) (\<lambda>_.
           let waited = wait_for_callback (callback env) 0;
               auth_code = fst (callback env waited);
               auth_error = snd (callback env waited)
           in
           bind
             (if truthy_str auth_error then
                return (Inl (AuthenticationError (''OAuth error: '' @ the auth_error)), self)
              else
                case auth_code of
                  None \<Rightarrow>
                    return (Inl (AuthenticationError ''Authentication timeout - no response received''),
                            self)
                | Some code \<Rightarrow>
                    bind (exchange_code_for_token env self code code_verifier) (\<lambda>(ok, self').
                      if \<not> ok then
                        return (Inl (AuthenticationError
                                      ''Failed to exchange authorization code for token''), self')
                      else
                        bind (logger INFO ''Authentication successful!'' []) (\<lambda>_.
                          return (Inr (access_token self'), self'))))
             (\<lambda>r. bind (emit ServerShutdown) (\<lambda>_. return r)))))"

text \<open>\<^verbatim>\<open>SharePointAuth.is_authenticated\<close> and \<^verbatim>\<open>SharePointAuth.get_auth_headers\<close>.\<close>

definition is_authenticated :: "SharePointAuth \<Rightarrow> bool" where
  "is_authenticated self = (access_token self \<noteq> JNull)"

definition get_auth_headers :: "SharePointAuth \<Rightarrow> exn + (string \<times> header_value) list" where
  "get_auth_headers self =
     (if \<not> truthy (access_token self)
      then Inl (AuthenticationError ''Not authenticated. Call authenticate() first.'')
      else Inr [(''Authorization'', Bearer (access_token self)),
                (''Accept'', HStr ''application/json''),
                (''Content-Type'', HStr ''application/json'')])"

section \<open>Scraper (\<^verbatim>\<open>scraper.py\<close>): documents and downloads\<close>

text \<open>
  A document descriptor is a flat dictionary. Its values are the scalars that the
  enumerator puts there and that a metadata snapshot holds: \<^verbatim>\<open>None\<close>, strings and
  integers.
\<close>

datatype pyval = PNone | PStr string | PInt int





text \<open>\<^verbatim>\<open>str(v)\<close>, as an f-string formats a value.\<close>

fun py_str :: "pyval \<Rightarrow> string" where
  "py_str PNone = ''None''"
| "py_str (PStr s) = s"
| "py_str (PInt n) = str_int n"




text \<open>\<^verbatim>\<open>marker in v\<close> for a string marker.\<close>

fun py_in :: "string \<Rightarrow> pyval \<Rightarrow> exn + bool" where
  "py_in marker (PStr s) = Inr (str_contains marker s)"
| "py_in marker v = Inl (TypeError ''argument is not iterable'')"



record SharePointScraper =
  site_url :: string
  auth :: SharePointAuth
  site_id :: "string option"

text \<open>The fields of a drive and of a drive item that the scraper reads from the
  Graph API's replies; an absent key is \<open>None\<close>.\<close>

record drive =
  d_id :: "string option"
  d_name :: "string option"

text \<open>\<open>i_file\<close> is the item's \<^verbatim>\<open>file\<close> facet when the key is present, with its
  \<^verbatim>\<open>mimeType\<close> when that key is present; \<open>i_folder\<close> says whether the key \<^verbatim>\<open>folder\<close>
  is present.\<close>

record item =
  i_name :: "string option"
  i_id :: "string option"
  i_file :: "string option option"
  i_folder :: bool
  i_size :: "int option"
  i_createdDateTime :: "string option"
  i_lastModifiedDateTime :: "string option"
  i_downloadUrl :: "string option"
  i_webUrl :: "string option"
  i_parentReference_path :: "string option"
  i_createdBy :: "string option"

text \<open>The reply to a listing of children: the items under \<^verbatim>\<open>value\<close> (none when the key is
  absent) and the link under \<^verbatim>\<open>@odata.nextLink\<close>.\<close>

record children =
  c_value :: "item list"
  c_nextLink :: "string option"

text \<open>
  What the scraper meets outside the program: the Graph API, by kind of call (each
  answers the \<open>n\<close>-th request of the run), and the message of the \<^verbatim>\<open>OSError\<close> (if
  any) that creating a directory or writing a file raises.
\<close>

record remote =
  drives_api :: "nat \<Rightarrow> request \<Rightarrow> drive list reply"
  children_api :: "nat \<Rightarrow> request \<Rightarrow> children reply"
  content_api :: "nat \<Rightarrow> request \<Rightarrow> unit reply"
  mkdir_error :: "string \<Rightarrow> string option"
  write_error :: "string \<Rightarrow> string option"


definition write_file :: "remote \<Rightarrow> string \<Rightarrow> string \<Rightarrow> unit prog" where
  "write_file env path bytes =
     (case write_error env path of Some msg \<Rightarrow> raise (OSError msg) | None \<Rightarrow> emit (WriteFile path bytes))"



text \<open>One \<^verbatim>\<open>requests.get\<close> of the download loop: without headers for a direct download
  URL, with the authorization headers otherwise.\<close>

definition download_get :: "remote \<Rightarrow> SharePointScraper \<Rightarrow> pyval \<Rightarrow> unit response prog" where
  "download_get env self download_url =
     bind (lift (py_in ''@microsoft.graph.downloadUrl'' download_url)) (\<lambda>direct.
       if direct then
         requests_get (content_api env)
           \<lparr>url = py_str download_url, headers = [], form = [], timeout = Some 60\<rparr>
       else
         bind (lift (get_auth_headers (auth self))) (\<lambda>headers.
           requests_get (content_api env)
             \<lparr>url = py_str download_url,
              headers = AList.update ''Accept'' (HStr ''application/octet-stream'') headers,
              form = [], timeout = Some 60\<rparr>))"

text \<open>The retry loop of \<^verbatim>\<open>download_document\<close>: the body of the \<^verbatim>\<open>try\<close> of one
  iteration, and \<^verbatim>\<open>for attempt in range(max_retries)\<close> with \<open>max_retries = 3\<close>, from
  the iteration \<open>attempt\<close> on.\<close>

definition download_attempt ::
  "remote \<Rightarrow> SharePointScraper \<Rightarrow> pyval \<Rightarrow> string \<Rightarrow> string option prog" where
  "download_attempt env self download_url file_path =
     bind (download_get env self download_url) (\<lambda>response.
       if status_code response = 200 then
         bind (write_file env file_path (content response)) (\<lambda>_.
         bind (logger INFO ''Downloaded successfully: {}'' [AStr file_path]) (\<lambda>_.
         return (Some file_path)))
       else
         raise (DownloadError (''Download failed: '' @ str_nat (status_code response))))"






section \<open>Notions used in the statements\<close>

text \<open>The two shapes that \<^verbatim>\<open>load_documents_metadata\<close> accepts: a dictionary with the key
  \<^verbatim>\<open>documents\<close>, or a list.\<close>

definition is_snapshot :: "json \<Rightarrow> bool" where
  "is_snapshot data =
     (case data of JObj kvs \<Rightarrow> ''documents'' \<in> fst ` set kvs | JArr xs \<Rightarrow> True | _ \<Rightarrow> False)"






subsection \<open>Concrete inputs\<close>








definition example_filesystem :: "(string \<times> content) list \<Rightarrow> filesystem" where
  "example_filesystem fs = \<lparr>files = map_of fs, read_denied = Map.empty, write_denied = Map.empty\<rparr>"



section \<open>Properties of the filename sanitizer\<close>

lemma fold_replace_char:
  "fold (\<lambda>char sanitized. replace_char char u sanitized) cs s =
     map (\<lambda>c. if c \<in> set cs then u else c) s"
  by (induction cs arbitrary: s) (auto simp: replace_char_def)

lemma replace_invalid_map:
  "replace_invalid s = map (\<lambda>c. if c \<in> set invalid_chars then CHR ''_'' else c) s"
  unfolding replace_invalid_def by (rule fold_replace_char)

lemma underscore_valid: "CHR ''_'' \<notin> set invalid_chars"
  by (simp add: invalid_chars_def)

lemma set_replace_invalid: "set (replace_invalid s) \<inter> set invalid_chars = {}"
  unfolding replace_invalid_map using underscore_valid by auto

lemma replace_invalid_id:
  assumes "set s \<inter> set invalid_chars = {}"
  shows "replace_invalid s = s"
  unfolding replace_invalid_map using assms by (intro map_idI) auto

lemma length_replace_invalid: "length (replace_invalid s) = length s"
  by (simp add: replace_invalid_map)

lemma set_strip: "set (strip cs s) \<subseteq> set s"
  by (auto simp: strip_def dest!: set_dropWhileD)

lemma strip_id:
  assumes "s \<noteq> []" "hd s \<notin> set cs" "last s \<notin> set cs"
  shows "strip cs s = s"
proof -
  have 1: "dropWhile (\<lambda>c. c \<in> set cs) s = s"
    using assms by (cases s) auto
  have "hd (rev s) \<notin> set cs" using assms by (simp add: hd_rev)
  then have 2: "dropWhile (\<lambda>c. c \<in> set cs) (rev s) = rev s"
    using assms by (cases "rev s") auto
  show ?thesis by (simp add: strip_def 1 2)
qed

lemma hd_dropWhile_not: "dropWhile P xs \<noteq> [] \<Longrightarrow> \<not> P (hd (dropWhile P xs))"
  by (induction xs) auto

lemma last_dropWhile: "dropWhile P xs \<noteq> [] \<Longrightarrow> last (dropWhile P xs) = last xs"
  by (induction xs) auto

lemma strip_ends:
  assumes "strip cs s \<noteq> []"
  shows "hd (strip cs s) \<notin> set cs" and "last (strip cs s) \<notin> set cs"
proof -
  let ?P = "\<lambda>c. c \<in> set cs"
  let ?a = "dropWhile ?P s"
  let ?b = "dropWhile ?P (rev ?a)"
  have b: "?b \<noteq> []" using assms by (simp add: strip_def)
  have a: "?a \<noteq> []"
  proof
    assume e: "?a = []"
    have "?b = []" unfolding e by simp
    with b show False by contradiction
  qed
  have "last (strip cs s) = hd ?b" using b by (simp add: strip_def last_rev)
  then show "last (strip cs s) \<notin> set cs" using hd_dropWhile_not[OF b] by simp
  have "hd (strip cs s) = last ?b" using b by (simp add: strip_def hd_rev)
  also have "\<dots> = last (rev ?a)" using b by (rule last_dropWhile)
  also have "\<dots> = hd ?a" using a by (simp add: last_rev)
  finally show "hd (strip cs s) \<notin> set cs" using hd_dropWhile_not[OF a] by simp
qed

lemma splitext_append: "splitext p = (name, ext) \<Longrightarrow> name @ ext = p"
  by (auto simp: splitext_def Let_def split: if_splits)

lemma set_py_slice_to: "set (py_slice_to k xs) \<subseteq> set xs"
  by (auto simp: py_slice_to_def dest: in_set_takeD)

lemma sanitize_no_reserved: "set (sanitize_filename x) \<inter> set invalid_chars = {}"
proof -
  let ?s = "strip ''. '' (replace_invalid x)"
  have s: "set ?s \<inter> set invalid_chars = {}"
    using set_strip[of "''. ''" "replace_invalid x"] set_replace_invalid[of x] by blast
  have u: "set ''unknown_file'' \<inter> set invalid_chars = {}"
    by (simp add: invalid_chars_def)
  have t: "set (py_slice_to k name @ ext) \<inter> set invalid_chars = {}"
    if "splitext ?s = (name, ext)" for k name ext
  proof -
    have "set name \<union> set ext = set ?s" using splitext_append[OF that] by (metis set_append)
    then show ?thesis using s set_py_slice_to[of k name] by auto
  qed
  obtain name ext where ne: "splitext ?s = (name, ext)" by (cases "splitext ?s")
  show ?thesis
  proof (cases "x = [] \<or> ?s = []")
    case True
    then have "sanitize_filename x = ''unknown_file''"
      by (auto simp: sanitize_filename_def Let_def)
    with u show ?thesis by (simp only:)
  next
    case False
    show ?thesis
    proof (cases "200 < length ?s")
      case True
      with False have "sanitize_filename x = py_slice_to (200 - int (length ext)) name @ ext"
        by (simp add: sanitize_filename_def Let_def ne)
      with t[OF ne] show ?thesis by (simp only:)
    next
      case False
      with \<open>\<not> (x = [] \<or> ?s = [])\<close> have "sanitize_filename x = ?s"
        by (simp add: sanitize_filename_def Let_def)
      with s show ?thesis by (simp only:)
    qed
  qed
qed

lemma sanitize_truncated_length:
  assumes "200 < length (strip ''. '' (replace_invalid x))"
      and "length (snd (splitext (strip ''. '' (replace_invalid x)))) \<le> 200"
  shows "length (sanitize_filename x) = 200"
proof -
  let ?s = "strip ''. '' (replace_invalid x)"
  obtain name ext where ne: "splitext ?s = (name, ext)" by (cases "splitext ?s")
  have len: "length name + length ext = length ?s"
    using splitext_append[OF ne] by (metis length_append)
  have x: "x \<noteq> []" using assms(1) by (auto simp: replace_invalid_map strip_def)
  have s: "?s \<noteq> []" using assms(1) by auto
  have e: "length ext \<le> 200" using assms(2) ne by simp
  have "sanitize_filename x = py_slice_to (200 - int (length ext)) name @ ext"
    using x s assms(1) by (simp add: sanitize_filename_def Let_def ne)
  moreover have "length (py_slice_to (200 - int (length ext)) name) = 200 - length ext"
    using e len assms(1) by (simp add: py_slice_to_def)
  ultimately show ?thesis using e by simp
qed

lemma sanitize_length_le:
  assumes "length (snd (splitext (strip ''. '' (replace_invalid x)))) \<le> 200"
  shows "length (sanitize_filename x) \<le> 200"
proof (cases "200 < length (strip ''. '' (replace_invalid x))")
  case True
  then show ?thesis using sanitize_truncated_length[OF True assms] by simp
next
  case False
  then show ?thesis by (simp add: sanitize_filename_def Let_def)
qed

lemma sanitize_fixpoint:
  assumes "s \<noteq> []" "set s \<inter> set invalid_chars = {}"
      and "hd s \<notin> set ''. ''" "last s \<notin> set ''. ''" "length s \<le> 200"
  shows "sanitize_filename s = s"
proof -
  have "strip ''. '' (replace_invalid s) = s"
    using assms by (simp add: replace_invalid_id strip_id del: set_simps)
  then show ?thesis using assms by (simp add: sanitize_filename_def Let_def)
qed

lemma sanitize_idempotent_untruncated:
  assumes "length (strip ''. '' (replace_invalid x)) \<le> 200"
  shows "sanitize_filename (sanitize_filename x) = sanitize_filename x"
proof -
  let ?s = "strip ''. '' (replace_invalid x)"
  have u: "sanitize_filename ''unknown_file'' = ''unknown_file''"
    by code_simp
  show ?thesis
  proof (cases "x = [] \<or> ?s = []")
    case True
    then have "sanitize_filename x = ''unknown_file''"
      by (auto simp: sanitize_filename_def Let_def)
    then show ?thesis using u by simp
  next
    case False
    then have r: "sanitize_filename x = ?s"
      using assms by (simp add: sanitize_filename_def Let_def)
    have "set ?s \<inter> set invalid_chars = {}"
      using set_strip[of "''. ''" "replace_invalid x"] set_replace_invalid[of x] by blast
    moreover have "hd ?s \<notin> set ''. ''" "last ?s \<notin> set ''. ''"
      using False strip_ends[of "''. ''" "replace_invalid x"] by blast+
    ultimately have "sanitize_filename ?s = ?s"
      using False assms by (intro sanitize_fixpoint) blast+
    then show ?thesis using r by simp
  qed
qed

text \<open>
  Claim C4 (the sanitized name has at most 200 characters, for every input). The
  truncation branch computes \<^verbatim>\<open>name[:200-len(ext)] + ext\<close>; when the extension
  found by \<^verbatim>\<open>os.path.splitext\<close> is itself longer than 200 characters the slice
  bound is negative and the result keeps the whole extension. For the name
  \<^verbatim>\<open>"a." + "b"*300\<close> the sanitized name has 301 characters.
\<close>

theorem sanitize_filename_exceeds_limit:
  "length (sanitize_filename (''a.'' @ replicate 300 (CHR ''b''))) = 301"
  by code_simp

text \<open>
  Claim C5 (the sanitizer is idempotent). Truncation happens after stripping, so a
  truncated name can end in a space: \<^verbatim>\<open>"a"*199 + " b"\<close> is cut to
  \<^verbatim>\<open>"a"*199 + " "\<close>, and sanitizing that name again strips the space.
\<close>

theorem sanitize_filename_not_idempotent:
  "sanitize_filename (replicate 199 (CHR ''a'') @ '' b'') = replicate 199 (CHR ''a'') @ '' '' \<and>
   sanitize_filename (sanitize_filename (replicate 199 (CHR ''a'') @ '' b'')) = replicate 199 (CHR ''a'') \<and>
   sanitize_filename (sanitize_filename (replicate 199 (CHR ''a'') @ '' b''))
     \<noteq> sanitize_filename (replicate 199 (CHR ''a'') @ '' b'')"
  by code_simp

section \<open>Properties of the metadata snapshot\<close>

lemma load_handler: "load_body fs p = Inl e \<Longrightarrow>
   load_documents_metadata fs p = Inr (JArr [], [Print ''Error loading metadata: {}'' [AExn e]])"
  by (simp add: load_documents_metadata_def)

lemma load_body_fails:
  assumes "read_denied fs p \<noteq> None \<or> files fs p = None \<or> (\<exists>msg. files fs p = Some (Invalid msg))
           \<or> (\<exists>data. files fs p = Some (Json data) \<and> \<not> is_snapshot data)"
  shows "\<exists>e. load_body fs p = Inl e"
proof (cases "read_denied fs p")
  case (Some e)
  then show ?thesis by (simp add: load_body_def open_read_def)
next
  case None
  show ?thesis
  proof (cases "files fs p")
    case absent: None
    with None show ?thesis by (simp add: load_body_def open_read_def)
  next
    case (Some c)
    show ?thesis
    proof (cases c)
      case (Invalid msg)
      with None Some show ?thesis by (simp add: load_body_def open_read_def)
    next
      case (Json data)
      with assms None Some have "\<not> is_snapshot data" by simp
      with None Some Json show ?thesis
        by (cases data) (simp_all add: load_body_def open_read_def is_snapshot_def)
    qed
  qed
qed

lemma load_empty_on_failure:
  assumes "read_denied fs p \<noteq> None \<or> files fs p = None \<or> (\<exists>msg. files fs p = Some (Invalid msg))
           \<or> (\<exists>data. files fs p = Some (Json data) \<and> \<not> is_snapshot data)"
  shows "\<exists>out. load_documents_metadata fs p = Inr (JArr [], out)"
  using load_body_fails[OF assms] by (auto simp: load_handler)

text \<open>
  Claim C10. Loading the metadata snapshot never raises: whatever the state of the file,
  \<^verbatim>\<open>load_documents_metadata\<close> returns a value; and when the file is missing, cannot be
  read, does not hold valid JSON, or holds JSON that is neither a dictionary with the key
  \<^verbatim>\<open>documents\<close> nor a list, the value returned is the empty list.
\<close>

theorem load_documents_metadata_never_raises:
  "(\<exists>v out. load_documents_metadata fs p = Inr (v, out)) \<and>
   (files fs p = None \<longrightarrow> (\<exists>out. load_documents_metadata fs p = Inr (JArr [], out))) \<and>
   (read_denied fs p \<noteq> None \<longrightarrow> (\<exists>out. load_documents_metadata fs p = Inr (JArr [], out))) \<and>
   (files fs p = Some (Invalid msg) \<longrightarrow> (\<exists>out. load_documents_metadata fs p = Inr (JArr [], out))) \<and>
   (files fs p = Some (Json data) \<and> \<not> is_snapshot data \<longrightarrow>
      (\<exists>out. load_documents_metadata fs p = Inr (JArr [], out)))"
proof (intro conjI impI)
  show "\<exists>v out. load_documents_metadata fs p = Inr (v, out)"
    by (cases "load_body fs p") (simp_all add: load_documents_metadata_def)
qed (rule load_empty_on_failure, blast)+

theorem load_documents_metadata_never_raises_witness:
  "(\<exists>out. load_documents_metadata (example_filesystem []) ''snapshot.json'' = Inr (JArr [], out)) \<and>
   (\<exists>out. load_documents_metadata
             \<lparr>files = [''snapshot.json'' \<mapsto> Json (JArr [JInt 1])],
              read_denied = [''snapshot.json'' \<mapsto> OSError ''Permission denied''],
              write_denied = Map.empty\<rparr> ''snapshot.json'' = Inr (JArr [], out)) \<and>
   (\<exists>out. load_documents_metadata (example_filesystem [(''snapshot.json'', Invalid ''Expecting value'')])
             ''snapshot.json'' = Inr (JArr [], out)) \<and>
   (\<exists>out. load_documents_metadata
             (example_filesystem [(''snapshot.json'', Json (JObj [(''total_documents'', JInt 0)]))])
             ''snapshot.json'' = Inr (JArr [], out))"
  using load_documents_metadata_never_raises[of "example_filesystem []" "''snapshot.json''" "''''" JNull]
    load_documents_metadata_never_raises[of
       "\<lparr>files = [''snapshot.json'' \<mapsto> Json (JArr [JInt 1])],
         read_denied = [''snapshot.json'' \<mapsto> OSError ''Permission denied''],
         write_denied = Map.empty\<rparr>" "''snapshot.json''" "''''" JNull]
    load_documents_metadata_never_raises[of
       "example_filesystem [(''snapshot.json'', Invalid ''Expecting value'')]" "''snapshot.json''"
       "''Expecting value''" JNull]
    load_documents_metadata_never_raises[of
       "example_filesystem [(''snapshot.json'', Json (JObj [(''total_documents'', JInt 0)]))]"
       "''snapshot.json''" "''''" "JObj [(''total_documents'', JInt 0)]"]
  by (simp add: example_filesystem_def is_snapshot_def)



section \<open>Properties of the authentication\<close>






section \<open>Properties of the download\<close>



subsection \<open>Requests made\<close>




lemma download_attempt_not_request:
  "fst (download_attempt env self u fp w) = Inl e \<Longrightarrow> is_RequestException e \<Longrightarrow>
     \<exists>m req. e = RequestException m"
  by (cases e) auto


subsection \<open>Computations that make no request and do not sleep\<close>


































end
